theory Spec2Isabelle
  imports Main "HOL-Library.Char_ord" "HOL-Library.List_Lexorder" "HOL-Library.Multiset"
begin

section \<open>Texts, numbers and the values of the Python runtime\<close>

text \<open>
  The program is \<^verbatim>\<open>ArielSheets.py\<close>. Its texts are Python strings; here a text is a
  \<^typ>\<open>string\<close>, a list of characters with code points below 256. On that alphabet the
  regular expression class \<^verbatim>\<open>\d\<close> is exactly the ten ASCII digits and \<^verbatim>\<open>[A-Z]\<close> the
  twenty-six capital letters. Python's integers are unbounded: they are \<^typ>\<open>int\<close>.
\<close>

datatype error = ValueError | OverflowError | AttributeError | IndexError | ZeroDivisionError

text \<open>What a method hands back: a string, or \<^verbatim>\<open>None\<close> when it falls off its end.\<close>

datatype pyval = Str string | PyNone

definition is_upper :: "char \<Rightarrow> bool" where
  "is_upper c = (65 \<le> (of_char c :: nat) \<and> (of_char c :: nat) \<le> 90)"

definition is_digit :: "char \<Rightarrow> bool" where
  "is_digit c = (48 \<le> (of_char c :: nat) \<and> (of_char c :: nat) \<le> 57)"

definition digit_char :: "nat \<Rightarrow> char" where
  "digit_char d = char_of (48 + d)"

definition digit_val :: "char \<Rightarrow> nat" where
  "digit_val c = of_char c - 48"

text \<open>\<^verbatim>\<open>str(n)\<close> for an integer: its decimal digits, with a minus sign when negative.\<close>

fun digits_of_nat :: "nat \<Rightarrow> string" where
  "digits_of_nat n =
     (if n < 10 then [digit_char n] else digits_of_nat (n div 10) @ [digit_char (n mod 10)])"

declare digits_of_nat.simps [simp del]

definition str_int :: "int \<Rightarrow> string" where
  "str_int i = (if i < 0 then CHR ''-'' # digits_of_nat (nat (- i)) else digits_of_nat (nat i))"

text \<open>\<^verbatim>\<open>int(s)\<close> on a run of digits, as the regular expression group \<^verbatim>\<open>(\d+)\<close> delivers it.\<close>

definition nat_of_digits :: "string \<Rightarrow> nat" where
  "nat_of_digits ds = foldl (\<lambda>a c. 10 * a + digit_val c) 0 ds"

definition int_of_digits :: "string \<Rightarrow> int" where
  "int_of_digits ds = int (nat_of_digits ds)"

text \<open>
  CPython's limit on the length of a decimal text in conversions between \<^verbatim>\<open>int\<close> and
  \<^verbatim>\<open>str\<close> (4300 digits unless configured otherwise) is not modelled.
\<close>

text \<open>An integer that fits a C \<^verbatim>\<open>int\<close> of 32 bits, and the wrap-around of one that does not.\<close>

definition c_int :: "int \<Rightarrow> bool" where
  "c_int n = (- 2147483648 \<le> n \<and> n \<le> 2147483647)"

definition wrap32 :: "int \<Rightarrow> int" where
  "wrap32 n = (n + 2147483648) mod 4294967296 - 2147483648"

text \<open>The code points of a text, and the text of a list of code points below 256.\<close>

definition codes :: "string \<Rightarrow> int list" where
  "codes s = map (\<lambda>c. int (of_char c)) s"

definition text_of_codes :: "int list \<Rightarrow> string option" where
  "text_of_codes cs =
     (if list_all (\<lambda>c. 0 \<le> c \<and> c < 256) cs then Some (map (\<lambda>c. char_of (nat c)) cs) else None)"

text \<open>\<^verbatim>\<open>s.startswith(p)\<close>.\<close>

definition startswith :: "string \<Rightarrow> string \<Rightarrow> bool" where
  "startswith s p = (take (length p) s = p)"

section \<open>Cell addresses\<close>

text \<open>
  \<^verbatim>\<open>get_cell_id(row, col)\<close> is \<^verbatim>\<open>f"{chr(65 + col)}{row + 1}"\<close>. Nothing in the function
  checks its arguments; \<^verbatim>\<open>chr\<close> takes a C \<^verbatim>\<open>int\<close> and raises \<^verbatim>\<open>OverflowError\<close> for
  an argument that does not fit one, and \<^verbatim>\<open>ValueError\<close> for one that fits but lies outside
  \<^verbatim>\<open>range(0x110000)\<close>. The returned string is given by its code points, so that every
  column has its answer: the code point \<open>65 + col\<close>, then the decimal digits of
  \<open>row + 1\<close>.
\<close>

definition get_cell_id_codes :: "int \<Rightarrow> int \<Rightarrow> error + int list" where
  "get_cell_id_codes row col =
     (if \<not> c_int (65 + col) then Inl OverflowError
      else if 65 + col < 0 \<or> 1114112 \<le> 65 + col then Inl ValueError
      else Inr ((65 + col) # codes (str_int (row + 1))))"

text \<open>
  The same call with the returned string as a text. A string with a character above code
  point 255 is not a text of \<^typ>\<open>string\<close>: there the answer is \<open>None\<close>, and
  \<open>get_cell_id_codes\<close> tells what the function returns.
\<close>

definition get_cell_id :: "int \<Rightarrow> int \<Rightarrow> (error + string) option" where
  "get_cell_id row col =
     (case get_cell_id_codes row col of
        Inl e \<Rightarrow> Some (Inl e)
      | Inr cs \<Rightarrow> map_option Inr (text_of_codes cs))"

text \<open>
  The address part of \<^verbatim>\<open>get_cell_from_id\<close>: \<^verbatim>\<open>re.match(r"([A-Z])(\d+)", cell_id)\<close>
  matches at the start of the text (whatever follows the digits is ignored), then
  \<^verbatim>\<open>col = ord(letter) - 65\<close> and \<^verbatim>\<open>row = int(digits) - 1\<close>. The result is
  \<open>(row, col)\<close>, or \<open>None\<close> when the expression does not match.
\<close>

definition decode_cell_id :: "string \<Rightarrow> (int \<times> int) option" where
  "decode_cell_id cell_id =
     (case cell_id of
        [] \<Rightarrow> None
      | c # rest \<Rightarrow>
          if is_upper c \<and> takeWhile is_digit rest \<noteq> []
          then Some (int_of_digits (takeWhile is_digit rest) - 1, int (of_char c) - 65)
          else None)"

section \<open>The grid store\<close>

text \<open>
  The evaluator reads and writes the table through the attribute \<^verbatim>\<open>self.spreadsheet\<close>.
  \<^verbatim>\<open>ExcelClone\<close> never assigns that attribute (only \<^verbatim>\<open>FormulaBar\<close> has one of that name;
  the multi-sheet code uses \<^verbatim>\<open>self.current_sheet\<close>), so in the program as it stands every
  use of it raises \<^verbatim>\<open>AttributeError\<close>. The record below is what the attribute stands for:
  \<open>assigned\<close> tells whether the attribute exists, and the other fields are the table it
  names when it does, a \<^verbatim>\<open>QTableWidget\<close> of PyQt6 with \<open>rowCount\<close> rows and
  \<open>columnCount\<close> columns. The program as it stands is the case \<open>assigned = False\<close>.
  \<^verbatim>\<open>sort_table\<close> works on the table of \<^verbatim>\<open>self.current_sheet\<close>, which always exists; for
  it \<open>assigned\<close> plays no part.

  A cell holds an item or nothing; of an item only its text matters here.

  \<^item> \<^verbatim>\<open>item(row, col)\<close> gives \<^verbatim>\<open>None\<close> for an empty cell and for a coordinate outside
    the table.
  \<^item> \<^verbatim>\<open>setItem(row, col, item)\<close> does not check the coordinate: Qt keeps the items in
    one vector of \<open>rowCount * columnCount\<close> places, computes the place
    \<open>row * columnCount + col\<close> as a C \<^verbatim>\<open>int\<close>, stores the item there when that place exists
    and does nothing otherwise. Inside the table this is the cell \<open>(row, col)\<close>; a
    coordinate outside the table can land on another cell.
  \<^item> Both take C \<^verbatim>\<open>int\<close> arguments: PyQt6 raises \<^verbatim>\<open>OverflowError\<close> for a Python
    integer outside the 32-bit range.
  \<^item> Not modelled: the signals sent by the table (\<^verbatim>\<open>itemChanged\<close>), and the deletion of
    the item a cell held when \<^verbatim>\<open>setItem\<close> replaces it (items are kept by their text).
\<close>

record grid =
  assigned :: bool
  rowCount :: int
  columnCount :: int
  cells :: "int \<times> int \<Rightarrow> string option"

definition in_grid :: "grid \<Rightarrow> int \<Rightarrow> int \<Rightarrow> bool" where
  "in_grid g row col = (0 \<le> row \<and> row < rowCount g \<and> 0 \<le> col \<and> col < columnCount g)"

definition item :: "grid \<Rightarrow> int \<Rightarrow> int \<Rightarrow> error + string option" where
  "item g row col =
     (if \<not> (c_int row \<and> c_int col) then Inl OverflowError
      else Inr (if in_grid g row col then cells g (row, col) else None))"

text \<open>The cell on which \<^verbatim>\<open>setItem(row, col, item)\<close> puts the item, if any.\<close>

definition landing :: "grid \<Rightarrow> int \<Rightarrow> int \<Rightarrow> (int \<times> int) option" where
  "landing g row col =
     (let i = wrap32 (row * columnCount g + col)
      in if 0 \<le> i \<and> i < rowCount g * columnCount g
         then Some (i div columnCount g, i mod columnCount g)
         else None)"

definition setItem :: "grid \<Rightarrow> int \<Rightarrow> int \<Rightarrow> string \<Rightarrow> error + grid" where
  "setItem g row col t =
     (if \<not> (c_int row \<and> c_int col) then Inl OverflowError
      else Inr (case landing g row col of
                  None \<Rightarrow> g
                | Some rc \<Rightarrow> g\<lparr>cells := (cells g)(rc \<mapsto> t)\<rparr>))"

text \<open>
  The attribute lookup \<^verbatim>\<open>self.spreadsheet\<close>, and the two calls made through it. The
  lookup comes first: without the attribute no table method is reached.
\<close>

definition spreadsheet :: "grid \<Rightarrow> error + grid" where
  "spreadsheet g = (if assigned g then Inr g else Inl AttributeError)"

definition spreadsheet_item :: "grid \<Rightarrow> int \<Rightarrow> int \<Rightarrow> error + string option" where
  "spreadsheet_item g row col =
     (case spreadsheet g of Inl e \<Rightarrow> Inl e | Inr tbl \<Rightarrow> item tbl row col)"

definition spreadsheet_setItem :: "grid \<Rightarrow> int \<Rightarrow> int \<Rightarrow> string \<Rightarrow> error + grid" where
  "spreadsheet_setItem g row col t =
     (case spreadsheet g of Inl e \<Rightarrow> Inl e | Inr tbl \<Rightarrow> setItem tbl row col t)"

text \<open>
  An item as the methods hold it: its text, and what \<^verbatim>\<open>item.row()\<close> and
  \<^verbatim>\<open>item.column()\<close> report, which is the item's place in the table, or \<open>-1\<close> for an
  item the table did not take.
\<close>

record qitem =
  irow :: int
  icol :: int
  itext :: string

text \<open>The new item after \<^verbatim>\<open>setItem(row, col, item)\<close> on the table \<open>g\<close>.\<close>

definition placed :: "grid \<Rightarrow> int \<Rightarrow> int \<Rightarrow> string \<Rightarrow> qitem" where
  "placed g row col t =
     (case landing g row col of
        Some (r, c) \<Rightarrow> \<lparr>irow = r, icol = c, itext = t\<rparr>
      | None \<Rightarrow> \<lparr>irow = - 1, icol = - 1, itext = t\<rparr>)"

text \<open>
  \<^verbatim>\<open>get_cell_from_id\<close>: the item at the address, created with the empty text when the
  cell has none; \<^verbatim>\<open>None\<close> when the text is no address. The lookups are not guarded, so
  their \<^verbatim>\<open>AttributeError\<close> or \<^verbatim>\<open>OverflowError\<close> leaves the method.
\<close>

definition get_cell_from_id :: "grid \<Rightarrow> string \<Rightarrow> grid \<times> (error + qitem option)" where
  "get_cell_from_id g cell_id =
     (case decode_cell_id cell_id of
        None \<Rightarrow> (g, Inr None)
      | Some (row, col) \<Rightarrow>
          (case spreadsheet_item g row col of
             Inl e \<Rightarrow> (g, Inl e)
           | Inr (Some t) \<Rightarrow> (g, Inr (Some \<lparr>irow = row, icol = col, itext = t\<rparr>))
           | Inr None \<Rightarrow>
               (case spreadsheet_setItem g row col [] of
                  Inl e \<Rightarrow> (g, Inl e)
                | Inr g' \<Rightarrow> (g', Inr (Some (placed g row col []))))))"

section \<open>Ranges\<close>

text \<open>\<^verbatim>\<open>s.split(sep)\<close> for a one-character separator.\<close>

fun split_str :: "char \<Rightarrow> string \<Rightarrow> string list" where
  "split_str sep [] = [[]]"
| "split_str sep (c # cs) =
     (if c = sep then [] # split_str sep cs
      else (case split_str sep cs of p # ps \<Rightarrow> (c # p) # ps | [] \<Rightarrow> [[c]]))"

text \<open>
  The two nested loops of \<^verbatim>\<open>get_cells_in_range\<close> over the coordinates of the range, in
  the order the loops visit them. Each collected item is paired with the coordinate it
  was looked up at.
\<close>

fun collect_cells :: "grid \<Rightarrow> (int \<times> int) list \<Rightarrow> grid \<times> (error + ((int \<times> int) \<times> string) list)" where
  "collect_cells g [] = (g, Inr [])"
| "collect_cells g ((row, col) # rest) =
     (case spreadsheet_item g row col of
        Inl e \<Rightarrow> (g, Inl e)
      | Inr (Some t) \<Rightarrow>
          (case collect_cells g rest of
             (g', Inl e) \<Rightarrow> (g', Inl e)
           | (g', Inr cs) \<Rightarrow> (g', Inr (((row, col), t) # cs)))
      | Inr None \<Rightarrow>
          (case spreadsheet_setItem g row col ''0'' of
             Inl e \<Rightarrow> (g, Inl e)
           | Inr g1 \<Rightarrow>
               (case collect_cells g1 rest of
                  (g', Inl e) \<Rightarrow> (g', Inl e)
                | (g', Inr cs) \<Rightarrow> (g', Inr (((row, col), ''0'') # cs)))))"

definition range_coords :: "int \<Rightarrow> int \<Rightarrow> int \<Rightarrow> int \<Rightarrow> (int \<times> int) list" where
  "range_coords start_row start_col end_row end_col =
     concat (map (\<lambda>row. map (\<lambda>col. (row, col)) [min start_col end_col..max start_col end_col])
       [min start_row end_row..max start_row end_row])"

definition get_cells_in_range :: "grid \<Rightarrow> string \<Rightarrow> grid \<times> (error + ((int \<times> int) \<times> string) list)" where
  "get_cells_in_range g range_str =
     (case split_str CHR '':'' range_str of
        [start, end] \<Rightarrow>
          (case get_cell_from_id g start of
             (g1, Inl e) \<Rightarrow> (g1, Inl e)
           | (g1, Inr start_item) \<Rightarrow>
               (case get_cell_from_id g1 end of
                  (g2, Inl e) \<Rightarrow> (g2, Inl e)
                | (g2, Inr end_item) \<Rightarrow>
                    (case start_item of
                       None \<Rightarrow> (g2, Inl AttributeError)
                     | Some si \<Rightarrow>
                         (case end_item of
                            None \<Rightarrow> (g2, Inl AttributeError)
                          | Some ei \<Rightarrow>
                              collect_cells g2
                                (range_coords (irow si) (icol si) (irow ei) (icol ei))))))
      | _ \<Rightarrow> (g, Inl ValueError))"


section \<open>Floats and expression evaluation of the Python runtime\<close>

text \<open>
  The program hands texts to \<^verbatim>\<open>float\<close>, computes with the resulting floats and prints
  them with \<^verbatim>\<open>str\<close>; the arithmetic of a formula is done by \<^verbatim>\<open>eval\<close>. These belong to
  the Python runtime, not to the program, so they are a parameter \<open>P\<close> of the model, over
  any type \<open>'f\<close> of float values:

  \<^item> \<open>float_str P s\<close>: \<^verbatim>\<open>float(s)\<close> of a text, \<open>None\<close> when it raises \<^verbatim>\<open>ValueError\<close>;
  \<^item> \<open>float_zero P\<close>: \<^verbatim>\<open>float(0)\<close>;
  \<^item> \<open>str_float P x\<close>: \<^verbatim>\<open>str(x)\<close>;
  \<^item> \<open>sum_floats P xs\<close>: \<^verbatim>\<open>sum(xs)\<close> of a non-empty list of floats;
  \<^item> \<open>div_float P x n\<close>: \<^verbatim>\<open>x / n\<close> for an integer \<open>n \<noteq> 0\<close>;
  \<^item> \<open>lt_float P x y\<close>, \<open>le_float P x y\<close>: \<^verbatim>\<open>x < y\<close>, \<^verbatim>\<open>x <= y\<close>;
  \<^item> \<open>ne_zero P x\<close>: \<^verbatim>\<open>x != 0\<close>;
  \<^item> \<open>is_finite P x\<close>: \<^verbatim>\<open>math.isfinite(x)\<close> (the program never calls it; the
    specification speaks of finite numbers);
  \<^item> \<open>eval_str P s\<close>: \<^verbatim>\<open>str(eval(s))\<close>, or \<open>Inl\<close> of the message \<^verbatim>\<open>str(e)\<close> of the
    exception \<^verbatim>\<open>e\<close> that \<^verbatim>\<open>eval\<close> or \<^verbatim>\<open>str\<close> raised.
\<close>

record 'f python =
  float_str :: "string \<Rightarrow> 'f option"
  float_zero :: "'f"
  str_float :: "'f \<Rightarrow> string"
  sum_floats :: "'f list \<Rightarrow> 'f"
  div_float :: "'f \<Rightarrow> int \<Rightarrow> 'f"
  lt_float :: "'f \<Rightarrow> 'f \<Rightarrow> bool"
  le_float :: "'f \<Rightarrow> 'f \<Rightarrow> bool"
  ne_zero :: "'f \<Rightarrow> bool"
  is_finite :: "'f \<Rightarrow> bool"
  eval_str :: "string \<Rightarrow> string + string"

text \<open>
  \<^verbatim>\<open>min(values)\<close> and \<^verbatim>\<open>max(values)\<close> of a non-empty list: the first element, replaced
  by each later one that compares smaller (larger).
\<close>

definition min_floats :: "'f python \<Rightarrow> 'f \<Rightarrow> 'f list \<Rightarrow> 'f" where
  "min_floats P x xs = foldl (\<lambda>m y. if lt_float P y m then y else m) x xs"

definition max_floats :: "'f python \<Rightarrow> 'f \<Rightarrow> 'f list \<Rightarrow> 'f" where
  "max_floats P x xs = foldl (\<lambda>m y. if lt_float P m y then y else m) x xs"

section \<open>Aggregate functions\<close>

text \<open>
  \<^verbatim>\<open>re.match(r'([A-Z]+)\((.*)\)', formula)\<close>: the longest run of capital letters at the
  start, which must be followed by an opening parenthesis; then, within the same line
  (\<^verbatim>\<open>.\<close> does not match a newline), everything up to the last closing parenthesis.
\<close>

definition match_function :: "string \<Rightarrow> (string \<times> string) option" where
  "match_function formula =
     (let func_name = takeWhile is_upper formula in
      case dropWhile is_upper formula of
        [] \<Rightarrow> None
      | c # rest \<Rightarrow>
          (let line = takeWhile (\<lambda>x. x \<noteq> CHR 0x0A) rest in
           if func_name = [] \<or> c \<noteq> CHR ''('' \<or> CHR '')'' \<notin> set line then None
           else Some (func_name, rev (tl (dropWhile (\<lambda>x. x \<noteq> CHR '')'') (rev line))))))"

text \<open>\<^verbatim>\<open>[float(cell.text() or 0) for cell in cells]\<close>.\<close>

fun cell_values :: "'f python \<Rightarrow> ((int \<times> int) \<times> string) list \<Rightarrow> error + 'f list" where
  "cell_values P [] = Inr []"
| "cell_values P ((rc, t) # rest) =
     (case (if t = [] then Some (float_zero P) else float_str P t) of
        None \<Rightarrow> Inl ValueError
      | Some v \<Rightarrow> (case cell_values P rest of Inl e \<Rightarrow> Inl e | Inr vs \<Rightarrow> Inr (v # vs)))"

text \<open>The chain of tests on the function name, on the collected values.\<close>

definition aggregate :: "'f python \<Rightarrow> string \<Rightarrow> 'f list \<Rightarrow> error + pyval" where
  "aggregate P func_name vals =
     (if vals = [] then Inr (Str ''0'')
      else if func_name = ''SUM'' then Inr (Str (str_float P (sum_floats P vals)))
      else if func_name = ''AVERAGE'' then
        (if length vals = 0 then Inl ZeroDivisionError
         else Inr (Str (str_float P (div_float P (sum_floats P vals) (int (length vals))))))
      else if func_name = ''MIN'' then Inr (Str (str_float P (min_floats P (hd vals) (tl vals))))
      else if func_name = ''MAX'' then Inr (Str (str_float P (max_floats P (hd vals) (tl vals))))
      else if func_name = ''COUNT'' then Inr (Str (str_int (int (length (filter (ne_zero P) vals)))))
      else Inr PyNone)"

text \<open>The body of the \<^verbatim>\<open>try\<close> of \<^verbatim>\<open>handle_special_function\<close>.\<close>

definition special_body :: "'f python \<Rightarrow> grid \<Rightarrow> string \<Rightarrow> string \<Rightarrow> grid \<times> (error + pyval)" where
  "special_body P g func_name range_str =
     (case get_cells_in_range g range_str of
        (g', Inl e) \<Rightarrow> (g', Inl e)
      | (g', Inr cs) \<Rightarrow>
          (case cell_values P cs of
             Inl e \<Rightarrow> (g', Inl e)
           | Inr vals \<Rightarrow> (g', aggregate P func_name vals)))"

text \<open>
  \<^verbatim>\<open>handle_special_function\<close>: every exception of the body is caught
  (\<^verbatim>\<open>except Exception\<close>) and turned into a text.
\<close>

definition handle_special_function :: "'f python \<Rightarrow> grid \<Rightarrow> string \<Rightarrow> grid \<times> (error + pyval)" where
  "handle_special_function P g formula =
     (case match_function formula of
        None \<Rightarrow> (g, Inr (Str ''ERROR: Invalid function format''))
      | Some (func_name, range_str) \<Rightarrow>
          (case special_body P g func_name range_str of
             (g', Inl e) \<Rightarrow> (g', Inr (Str (''ERROR: Invalid '' @ func_name @ '' range'')))
           | (g', Inr r) \<Rightarrow> (g', Inr r)))"

section \<open>General formulas\<close>

text \<open>
  \<^verbatim>\<open>re.findall(r'[A-Z]\d+', formula)\<close>: the matches from left to right, none
  overlapping another, each a capital letter with the longest run of digits after it.
\<close>

function findall_refs :: "string \<Rightarrow> string list" where
  "findall_refs [] = []"
| "findall_refs (c # cs) =
     (if is_upper c \<and> takeWhile is_digit cs \<noteq> []
      then (c # takeWhile is_digit cs) # findall_refs (dropWhile is_digit cs)
      else findall_refs cs)"
  by pat_completeness auto
termination
  by (relation "measure length") (auto simp: length_dropWhile_le less_Suc_eq_le)

text \<open>
  \<^verbatim>\<open>s.replace(old, new)\<close>: every occurrence of \<open>old\<close>, from left to right, none
  overlapping another; with the empty \<open>old\<close>, \<open>new\<close> goes before every character and at
  the end.
\<close>

function replace_from :: "string \<Rightarrow> string \<Rightarrow> string \<Rightarrow> string" where
  "replace_from old new [] = []"
| "replace_from old new (c # cs) =
     (if old \<noteq> [] \<and> take (length old) (c # cs) = old
      then new @ replace_from old new (drop (length old) (c # cs))
      else c # replace_from old new cs)"
  by pat_completeness auto
termination
  by (relation "measure (\<lambda>(old, new, s). length s)") auto

definition replace_str :: "string \<Rightarrow> string \<Rightarrow> string \<Rightarrow> string" where
  "replace_str s old new =
     (if old = [] then new @ concat (map (\<lambda>c. c # new) s) else replace_from old new s)"

text \<open>The loop of \<^verbatim>\<open>replace_cell_references\<close> over the references found.\<close>

fun replace_loop :: "'f python \<Rightarrow> grid \<Rightarrow> string list \<Rightarrow> string \<Rightarrow> grid \<times> (error + string)" where
  "replace_loop P g [] formula = (g, Inr formula)"
| "replace_loop P g (cell_ref # refs) formula =
     (case get_cell_from_id g cell_ref of
        (g', Inl e) \<Rightarrow> (g', Inl e)
      | (g', Inr cell_item) \<Rightarrow>
          (case float_str P (case cell_item of Some it \<Rightarrow> itext it | None \<Rightarrow> ''0'') of
             None \<Rightarrow> (g', Inr ''ERROR: Invalid cell reference'')
           | Some v \<Rightarrow> replace_loop P g' refs (replace_str formula cell_ref (str_float P v))))"

definition replace_cell_references :: "'f python \<Rightarrow> grid \<Rightarrow> string \<Rightarrow> grid \<times> (error + string)" where
  "replace_cell_references P g formula = replace_loop P g (findall_refs formula) formula"

definition allowed_chars :: string where
  "allowed_chars = ''0123456789+-*/() .''"

text \<open>
  \<^verbatim>\<open>evaluate_formula\<close>. The call of \<^verbatim>\<open>replace_cell_references\<close> stands before the
  \<^verbatim>\<open>try\<close>, so an exception it raises leaves \<^verbatim>\<open>evaluate_formula\<close>; the \<^verbatim>\<open>try\<close> covers
  the character test and \<^verbatim>\<open>eval\<close>.
\<close>

definition evaluate_formula :: "'f python \<Rightarrow> grid \<Rightarrow> string \<Rightarrow> grid \<times> (error + pyval)" where
  "evaluate_formula P g formula =
     (if \<not> startswith formula ''='' then (g, Inr (Str formula))
      else
        (let formula1 = drop 1 formula in
         if startswith formula1 ''SUM('' \<or> startswith formula1 ''AVERAGE(''
            \<or> startswith formula1 ''MIN('' \<or> startswith formula1 ''MAX(''
            \<or> startswith formula1 ''COUNT(''
         then handle_special_function P g formula1
         else
           (case replace_cell_references P g formula1 of
              (g', Inl e) \<Rightarrow> (g', Inl e)
            | (g', Inr formula2) \<Rightarrow>
                if startswith formula2 ''ERROR'' then (g', Inr (Str formula2))
                else if \<not> list_all (\<lambda>c. c \<in> set allowed_chars) formula2
                then (g', Inr (Str ''ERROR: Invalid characters in formula''))
                else
                  (case eval_str P formula2 of
                     Inl msg \<Rightarrow> (g', Inr (Str (''ERROR: Invalid formula ('' @ msg @ '')'')))
                   | Inr r \<Rightarrow> (g', Inr (Str r))))))"


section \<open>Validation rules\<close>

text \<open>
  A rule is the dictionary \<^verbatim>\<open>{'type', 'min', 'max'}\<close> stored under the cell's address;
  \<^verbatim>\<open>min\<close> and \<^verbatim>\<open>max\<close> are texts or \<^verbatim>\<open>None\<close>.
\<close>

record validation =
  vtype :: string
  vmin :: "string option"
  vmax :: "string option"

text \<open>
  \<^verbatim>\<open>float(validation['min']) if validation['min'] else float('-inf')\<close>, and the same
  for the upper bound with \<^verbatim>\<open>float('inf')\<close>.
\<close>

definition bound_float :: "'f python \<Rightarrow> string option \<Rightarrow> string \<Rightarrow> 'f option" where
  "bound_float P b dflt =
     (case b of
        None \<Rightarrow> float_str P dflt
      | Some t \<Rightarrow> if t \<noteq> [] then float_str P t else float_str P dflt)"

text \<open>The tests of \<^verbatim>\<open>validate_cell_input\<close> on the rule's type; each catches \<^verbatim>\<open>ValueError\<close>.\<close>

definition check_rule :: "'f python \<Rightarrow> validation \<Rightarrow> string \<Rightarrow> bool" where
  "check_rule P v txt =
     (if vtype v = ''Number Only'' then
        (case float_str P txt of Some x \<Rightarrow> True | None \<Rightarrow> False)
      else if vtype v = ''Text Only'' then
        (case float_str P txt of Some x \<Rightarrow> False | None \<Rightarrow> True)
      else if vtype v = ''Custom Range'' then
        (case float_str P txt of
           None \<Rightarrow> False
         | Some num_value \<Rightarrow>
             (case bound_float P (vmin v) ''-inf'' of
                None \<Rightarrow> False
              | Some min_val \<Rightarrow>
                  (case bound_float P (vmax v) ''inf'' of
                     None \<Rightarrow> False
                   | Some max_val \<Rightarrow>
                       le_float P min_val num_value \<and> le_float P num_value max_val)))
      else True)"

text \<open>
  \<^verbatim>\<open>validate_cell_input\<close>, for the current sheet's rules (\<open>None\<close>: there is no current
  sheet) and the edited item (\<open>None\<close>: no item). The outer \<open>None\<close> of the result is the
  one of \<open>get_cell_id\<close>.
\<close>

definition validate_cell_input ::
  "'f python \<Rightarrow> (string \<Rightarrow> validation option) option \<Rightarrow> qitem option \<Rightarrow> (error + bool) option" where
  "validate_cell_input P sheet it =
     (case it of
        None \<Rightarrow> Some (Inr True)
      | Some i \<Rightarrow>
          (case sheet of
             None \<Rightarrow> Some (Inr True)
           | Some cell_validations \<Rightarrow>
               (case get_cell_id (irow i) (icol i) of
                  None \<Rightarrow> None
                | Some (Inl e) \<Rightarrow> Some (Inl e)
                | Some (Inr cell_id) \<Rightarrow>
                    (case cell_validations cell_id of
                       None \<Rightarrow> Some (Inr True)
                     | Some v \<Rightarrow> Some (Inr (check_rule P v (itext i)))))))"

section \<open>Table regions\<close>












section \<open>An instance of the runtime for running the model\<close>

text \<open>
  The theorems below hold for every runtime \<open>P\<close>. To run the model on concrete inputs one
  runtime is needed. This one follows whole numbers and the two infinities; it agrees
  with CPython on the texts used in the evaluations of this theory: the empty text and
  texts with a letter (\<^verbatim>\<open>ValueError\<close>), runs of at most 15 digits (\<^verbatim>\<open>float('5')\<close> is
  \<open>5.0\<close>, printed \<^verbatim>\<open>5.0\<close>), and \<^verbatim>\<open>inf\<close> and \<^verbatim>\<open>-inf\<close>. It is not a model of CPython's
  floats beyond that: \<open>Untracked\<close> stands for any float it does not follow, it rejects
  texts that CPython accepts (such as \<^verbatim>\<open>1.5\<close>), and it evaluates no expression.
\<close>

datatype sfloat = Whole int | PosInf | NegInf | Untracked

definition sample_float_str :: "string \<Rightarrow> sfloat option" where
  "sample_float_str s =
     (if s \<noteq> [] \<and> list_all is_digit s then Some (Whole (int_of_digits s))
      else if s = ''inf'' then Some PosInf
      else if s = ''-inf'' then Some NegInf
      else None)"

fun sample_str_float :: "sfloat \<Rightarrow> string" where
  "sample_str_float (Whole n) = str_int n @ ''.0''"
| "sample_str_float PosInf = ''inf''"
| "sample_str_float NegInf = ''-inf''"
| "sample_str_float Untracked = ''?''"

fun sample_add :: "sfloat \<Rightarrow> sfloat \<Rightarrow> sfloat" where
  "sample_add (Whole a) (Whole b) = Whole (a + b)"
| "sample_add (Whole a) PosInf = PosInf"
| "sample_add PosInf (Whole b) = PosInf"
| "sample_add PosInf PosInf = PosInf"
| "sample_add (Whole a) NegInf = NegInf"
| "sample_add NegInf (Whole b) = NegInf"
| "sample_add NegInf NegInf = NegInf"
| "sample_add x y = Untracked"

fun sample_div :: "sfloat \<Rightarrow> int \<Rightarrow> sfloat" where
  "sample_div (Whole a) n = (if n \<noteq> 0 \<and> n dvd a then Whole (a div n) else Untracked)"
| "sample_div PosInf n = (if 0 < n then PosInf else if n < 0 then NegInf else Untracked)"
| "sample_div NegInf n = (if 0 < n then NegInf else if n < 0 then PosInf else Untracked)"
| "sample_div Untracked n = Untracked"

fun sample_lt :: "sfloat \<Rightarrow> sfloat \<Rightarrow> bool" where
  "sample_lt (Whole a) (Whole b) = (a < b)"
| "sample_lt NegInf (Whole b) = True"
| "sample_lt NegInf PosInf = True"
| "sample_lt (Whole a) PosInf = True"
| "sample_lt x y = False"

fun sample_ne_zero :: "sfloat \<Rightarrow> bool" where
  "sample_ne_zero (Whole a) = (a \<noteq> 0)"
| "sample_ne_zero x = True"

fun sample_is_finite :: "sfloat \<Rightarrow> bool" where
  "sample_is_finite PosInf = False"
| "sample_is_finite NegInf = False"
| "sample_is_finite x = True"

definition sample_eval :: "string \<Rightarrow> string + string" where
  "sample_eval s = Inl ''not evaluated''"

definition sample_python :: "sfloat python" where
  "sample_python =
     \<lparr>float_str = sample_float_str,
      float_zero = Whole 0,
      str_float = sample_str_float,
      sum_floats = foldl sample_add (Whole 0),
      div_float = sample_div,
      lt_float = sample_lt,
      le_float = (\<lambda>x y. x = y \<and> x \<noteq> Untracked \<or> sample_lt x y),
      ne_zero = sample_ne_zero,
      is_finite = sample_is_finite,
      eval_str = sample_eval\<rparr>"

definition empty_sheet :: grid where
  "empty_sheet = \<lparr>assigned = True, rowCount = 50, columnCount = 26, cells = (\<lambda>rc. None)\<rparr>"

definition sheet_a1_a10 :: grid where
  "sheet_a1_a10 = empty_sheet\<lparr>cells := [(0, 0) \<mapsto> ''2'', (9, 0) \<mapsto> ''5'']\<rparr>"

definition sheet_0_5_0 :: grid where
  "sheet_0_5_0 = empty_sheet\<lparr>cells := [(0, 0) \<mapsto> ''0'', (1, 0) \<mapsto> ''5'', (2, 0) \<mapsto> ''0'']\<rparr>"

section \<open>Notions of the specification\<close>


definition is_address :: "string \<Rightarrow> bool" where
  "is_address a = (case a of [] \<Rightarrow> False | c # ds \<Rightarrow> is_upper c \<and> ds \<noteq> [] \<and> list_all is_digit ds)"

definition well_formed_range :: "string \<Rightarrow> bool" where
  "well_formed_range range_str =
     (case split_str CHR '':'' range_str of
        [a, b] \<Rightarrow> is_address a \<and> is_address b
      | _ \<Rightarrow> False)"




text \<open>A table as Qt can hold it: the number of its cells is a C \<^verbatim>\<open>int\<close>.\<close>

definition qt_table :: "grid \<Rightarrow> bool" where
  "qt_table g = (0 \<le> rowCount g \<and> 0 \<le> columnCount g \<and>
                 rowCount g * columnCount g \<le> 2147483647)"

definition a1_number_only :: "string \<Rightarrow> validation option" where
  "a1_number_only = [''A1'' \<mapsto> \<lparr>vtype = ''Number Only'', vmin = None, vmax = None\<rparr>]"





section \<open>Round trip of the address codec\<close>

lemma of_char_digit_char: "d < 10 \<Longrightarrow> of_char (digit_char d) = 48 + d"
  by (simp add: digit_char_def)

lemma is_digit_digit_char: "d < 10 \<Longrightarrow> is_digit (digit_char d)"
  by (simp add: is_digit_def of_char_digit_char)

lemma digit_val_digit_char: "d < 10 \<Longrightarrow> digit_val (digit_char d) = d"
  by (simp add: digit_val_def of_char_digit_char)

lemma digits_of_nat_all_digits: "\<forall>c \<in> set (digits_of_nat n). is_digit c"
proof (induction n rule: digits_of_nat.induct)
  case (1 n)
  show ?case
  proof (cases "n < 10")
    case True
    then show ?thesis by (subst digits_of_nat.simps) (simp add: is_digit_digit_char)
  next
    case False
    with 1 show ?thesis
      by (subst digits_of_nat.simps) (simp add: is_digit_digit_char)
  qed
qed

lemma digits_of_nat_nonempty: "digits_of_nat n \<noteq> []"
  by (subst digits_of_nat.simps) simp

lemma nat_of_digits_snoc: "nat_of_digits (ds @ [c]) = 10 * nat_of_digits ds + digit_val c"
  by (simp add: nat_of_digits_def)

lemma nat_of_digits_of_nat: "nat_of_digits (digits_of_nat n) = n"
proof (induction n rule: digits_of_nat.induct)
  case (1 n)
  show ?case
  proof (cases "n < 10")
    case True
    then show ?thesis
      by (subst digits_of_nat.simps) (simp add: nat_of_digits_def digit_val_digit_char)
  next
    case False
    then have "nat_of_digits (digits_of_nat n) =
        10 * nat_of_digits (digits_of_nat (n div 10)) + digit_val (digit_char (n mod 10))"
      by (subst digits_of_nat.simps) (simp add: nat_of_digits_snoc)
    also have "\<dots> = 10 * (n div 10) + n mod 10"
      using 1 False by (simp add: digit_val_digit_char)
    finally show ?thesis by simp
  qed
qed

lemma takeWhile_digits_of_nat: "takeWhile is_digit (digits_of_nat n) = digits_of_nat n"
  using digits_of_nat_all_digits by (simp add: takeWhile_eq_all_conv)

lemma str_int_nonneg: "0 \<le> i \<Longrightarrow> str_int i = digits_of_nat (nat i)"
  by (simp add: str_int_def)

lemma text_of_codes_codes: "text_of_codes (codes s) = Some s"
  by (simp add: text_of_codes_def codes_def list_all_iff map_idI)

lemma get_cell_id_text:
  assumes "0 \<le> 65 + col" and "65 + col < 256"
  shows "get_cell_id row col = Some (Inr (char_of (nat (65 + col)) # str_int (row + 1)))"
proof -
  have "get_cell_id_codes row col = Inr ((65 + col) # codes (str_int (row + 1)))"
    using assms by (simp add: get_cell_id_codes_def c_int_def)
  moreover have "text_of_codes ((65 + col) # codes (str_int (row + 1))) =
      Some (char_of (nat (65 + col)) # str_int (row + 1))"
    using assms text_of_codes_codes [of "str_int (row + 1)"]
    by (simp add: text_of_codes_def split: if_splits)
  ultimately show ?thesis by (simp add: get_cell_id_def)
qed

text \<open>
  Claim C1. For every row \<open>row \<ge> 0\<close> and column \<open>0 \<le> col \<le> 25\<close>, \<^verbatim>\<open>get_cell_id\<close>
  returns an address, and the address-to-coordinate mapping of \<^verbatim>\<open>get_cell_from_id\<close>
  takes that address back to \<open>(row, col)\<close>.
\<close>

theorem codec_round_trip:
  assumes "0 \<le> row" and "0 \<le> col" and "col \<le> 25"
  shows "\<exists>a. get_cell_id row col = Some (Inr a) \<and> decode_cell_id a = Some (row, col)"
proof -
  let ?c = "char_of (nat (65 + col)) :: char"
  let ?ds = "digits_of_nat (nat (row + 1))"
  have enc: "get_cell_id row col = Some (Inr (?c # ?ds))"
    using assms get_cell_id_text [of col row] by (simp add: str_int_nonneg)
  have code: "(of_char ?c :: nat) = nat (65 + col)"
    using assms by simp
  have up: "is_upper ?c"
    unfolding is_upper_def code using assms by linarith
  have col: "int (of_char ?c) - 65 = col"
    using assms by (simp add: code)
  have row: "int_of_digits (takeWhile is_digit ?ds) - 1 = row"
    using assms by (simp add: takeWhile_digits_of_nat int_of_digits_def nat_of_digits_of_nat)
  have "decode_cell_id (?c # ?ds) = Some (row, col)"
    using up col row by (simp add: decode_cell_id_def takeWhile_digits_of_nat digits_of_nat_nonempty)
  with enc show ?thesis by blast
qed

theorem codec_round_trip_witness:
  "get_cell_id 2 1 = Some (Inr ''B3'') \<and> decode_cell_id ''B3'' = Some (2, 1)"
proof -
  have "\<exists>a. get_cell_id 2 1 = Some (Inr a) \<and> decode_cell_id a = Some (2, 1)"
    using codec_round_trip [of 2 1] by simp
  moreover have "get_cell_id 2 1 = Some (Inr ''B3'')"
    by code_simp
  ultimately show ?thesis by simp
qed


section \<open>Encoding a column outside A to Z\<close>




section \<open>The table inside its bounds, and the attribute\<close>

lemma in_grid_cells_update [simp]: "in_grid (g\<lparr>cells := m\<rparr>) r c = in_grid g r c"
  by (simp add: in_grid_def)

lemma landing_cells_update [simp]: "landing (g\<lparr>cells := m\<rparr>) r c = landing g r c"
  by (simp add: landing_def Let_def)

lemma qt_table_cells_update [simp]: "qt_table (g\<lparr>cells := m\<rparr>) = qt_table g"
  by (simp add: qt_table_def)

lemma place_inside:
  assumes "qt_table g" and "in_grid g r c"
  shows "0 \<le> r * columnCount g + c" and "r * columnCount g + c < rowCount g * columnCount g"
    and "rowCount g * columnCount g \<le> 2147483647"
proof -
  from assms(2) have r: "0 \<le> r" "r + 1 \<le> rowCount g" and c: "0 \<le> c" "c < columnCount g"
    by (simp_all add: in_grid_def)
  have "0 \<le> r * columnCount g" using r(1) c by simp
  then show "0 \<le> r * columnCount g + c" using c(1) by simp
  have "(r + 1) * columnCount g \<le> rowCount g * columnCount g"
    using r(2) c by (intro mult_right_mono) simp_all
  moreover have "r * columnCount g + c < (r + 1) * columnCount g"
    using c(2) by (simp add: distrib_right)
  ultimately show "r * columnCount g + c < rowCount g * columnCount g" by simp
  show "rowCount g * columnCount g \<le> 2147483647"
    using assms(1) by (simp add: qt_table_def)
qed

lemma landing_inside:
  assumes "qt_table g" and "in_grid g r c"
  shows "landing g r c = Some (r, c)"
proof -
  let ?i = "r * columnCount g + c"
  note p = place_inside [OF assms]
  from assms(2) have c: "0 \<le> c" "c < columnCount g" by (simp_all add: in_grid_def)
  have w: "wrap32 ?i = ?i"
    using p by (simp add: wrap32_def)
  have "?i div columnCount g = r"
    using c by (simp add: div_pos_pos_trivial)
  moreover have "?i mod columnCount g = c"
    using c by (simp add: mod_pos_pos_trivial)
  ultimately show ?thesis
    using p by (simp add: landing_def w)
qed

lemma in_grid_c_int:
  assumes "qt_table g" and "in_grid g r c"
  shows "c_int r \<and> c_int c"
proof -
  from assms(2) have r: "0 \<le> r" "r < rowCount g" and c: "0 \<le> c" "c < columnCount g"
    by (simp_all add: in_grid_def)
  have size: "rowCount g * columnCount g \<le> 2147483647"
    using assms(1) by (simp add: qt_table_def)
  have "rowCount g * 1 \<le> rowCount g * columnCount g"
    using r c by (intro mult_left_mono) simp_all
  then have a: "rowCount g \<le> 2147483647" using size by simp
  have "1 * columnCount g \<le> rowCount g * columnCount g"
    using r c by (intro mult_right_mono) simp_all
  then have b: "columnCount g \<le> 2147483647" using size by simp
  show ?thesis
    unfolding c_int_def using r c a b by linarith
qed

lemma item_inside:
  "qt_table g \<Longrightarrow> in_grid g r c \<Longrightarrow> item g r c = Inr (cells g (r, c))"
  using in_grid_c_int [of g r c] by (simp add: item_def)

lemma setItem_inside:
  "qt_table g \<Longrightarrow> in_grid g r c \<Longrightarrow>
     setItem g r c t = Inr (g\<lparr>cells := (cells g)((r, c) \<mapsto> t)\<rparr>)"
  using in_grid_c_int [of g r c] by (simp add: setItem_def landing_inside)

lemma placed_inside:
  "qt_table g \<Longrightarrow> in_grid g r c \<Longrightarrow> placed g r c t = \<lparr>irow = r, icol = c, itext = t\<rparr>"
  by (simp add: placed_def landing_inside)

lemma spreadsheet_assigned [simp]:
  "assigned g \<Longrightarrow> spreadsheet_item g r c = item g r c"
  "assigned g \<Longrightarrow> spreadsheet_setItem g r c t = setItem g r c t"
  by (simp_all add: spreadsheet_item_def spreadsheet_setItem_def spreadsheet_def)

lemma spreadsheet_unassigned [simp]:
  "\<not> assigned g \<Longrightarrow> spreadsheet_item g r c = Inl AttributeError"
  "\<not> assigned g \<Longrightarrow> spreadsheet_setItem g r c t = Inl AttributeError"
  by (simp_all add: spreadsheet_item_def spreadsheet_setItem_def spreadsheet_def)

lemma get_cell_from_id_unassigned:
  "\<not> assigned g \<Longrightarrow> decode_cell_id a = Some rc \<Longrightarrow>
     get_cell_from_id g a = (g, Inl AttributeError)"
  by (cases rc) (simp add: get_cell_from_id_def)

lemma get_cell_from_id_inside:
  assumes "assigned g" and "qt_table g" and "decode_cell_id a = Some (r, c)" and "in_grid g r c"
  shows "get_cell_from_id g a =
    (if cells g (r, c) = None then g\<lparr>cells := (cells g)((r, c) \<mapsto> [])\<rparr> else g,
     Inr (Some \<lparr>irow = r, icol = c, itext = (case cells g (r, c) of Some t \<Rightarrow> t | None \<Rightarrow> [])\<rparr>))"
  using assms
  by (auto simp: get_cell_from_id_def item_inside setItem_inside placed_inside split: option.splits)

section \<open>Exceptions that leave the evaluator\<close>

lemma decode_huge: "decode_cell_id ''A99999999999999999999'' = Some (99999999999999999998, 0)"
  by (simp add: decode_cell_id_def is_upper_def is_digit_def int_of_digits_def
      nat_of_digits_def digit_val_def)

text \<open>
  Claim C2 says that \<^verbatim>\<open>evaluate_formula\<close> never raises. On the formula
  \<^verbatim>\<open>=A99999999999999999999\<close> it does, whatever the table holds and whatever the runtime:
  \<^verbatim>\<open>replace_cell_references\<close> is called outside the \<^verbatim>\<open>try\<close>, and its table lookup
  raises. With the attribute assigned the row number does not fit the C \<^verbatim>\<open>int\<close> of
  \<^verbatim>\<open>item(row, col)\<close>; in the program as it stands the attribute lookup itself fails.
\<close>

theorem evaluate_formula_raises:
  "evaluate_formula P g ''=A99999999999999999999'' =
     (g, Inl (if assigned g then OverflowError else AttributeError))"
  by (simp add: evaluate_formula_def startswith_def replace_cell_references_def is_upper_def
      is_digit_def get_cell_from_id_def decode_huge item_def c_int_def)

text \<open>
  The aggregate path does what the claim says: \<^verbatim>\<open>handle_special_function\<close> wraps the same
  lookups in \<^verbatim>\<open>try\<close>/\<^verbatim>\<open>except Exception\<close> and always returns.
\<close>

lemma handle_special_function_returns:
  "snd (handle_special_function P g formula) \<noteq> Inl e"
  by (simp add: handle_special_function_def split: option.splits prod.splits sum.splits)

lemma aggregate_overflow_is_caught:
  "snd (evaluate_formula P g ''=SUM(A99999999999999999999:A1)'') =
     Inr (Str ''ERROR: Invalid SUM range'')"
  by (simp add: evaluate_formula_def startswith_def handle_special_function_def match_function_def
      is_upper_def special_body_def get_cells_in_range_def get_cell_from_id_def decode_huge
      item_def c_int_def spreadsheet_item_def spreadsheet_def)


section \<open>References in general formulas\<close>

text \<open>
  Claim C3 says that a reference to an absent cell puts the text \<^verbatim>\<open>0\<close> into the cell and
  counts as zero. On the empty sheet (with the attribute assigned), \<^verbatim>\<open>=A1+1\<close> evaluates to
  the error text instead, and the cell A1 is left with the empty text:
  \<^verbatim>\<open>get_cell_from_id\<close> creates the item with \<^verbatim>\<open>""\<close>, and \<^verbatim>\<open>float("")\<close> raises
  \<^verbatim>\<open>ValueError\<close>.
\<close>

theorem absent_reference_evaluation:
  "snd (evaluate_formula sample_python empty_sheet ''=A1+1'') =
     Inr (Str ''ERROR: Invalid cell reference'') \<and>
   cells (fst (evaluate_formula sample_python empty_sheet ''=A1+1'')) (0, 0) = Some []"
  by code_simp

text \<open>
  Claim C4 says that every reference is replaced by the value of the cell it names. With
  \<^verbatim>\<open>2\<close> in A1 and \<^verbatim>\<open>5\<close> in A10, the formula \<^verbatim>\<open>A1+A10\<close> becomes \<^verbatim>\<open>2.0+2.00\<close>:
  \<^verbatim>\<open>formula.replace("A1", "2.0")\<close> also rewrites the first two characters of \<^verbatim>\<open>A10\<close>.
\<close>

theorem prefix_reference_substitution:
  "snd (replace_cell_references sample_python sheet_a1_a10 ''A1+A10'') = Inr ''2.0+2.00''"
  by code_simp


text \<open>
  In the program as it stands neither claim fares better: without the attribute, the
  lookup of the first reference raises \<^verbatim>\<open>AttributeError\<close>, which leaves
  \<^verbatim>\<open>evaluate_formula\<close>, and the table is not touched.
\<close>

lemma unassigned_reference_raises:
  assumes "\<not> assigned g"
  shows "evaluate_formula P g ''=A1+1'' = (g, Inl AttributeError)"
proof -
  have d: "decode_cell_id ''A1'' = Some (0, 0)" by code_simp
  have f: "findall_refs ''A1+1'' = [''A1'']" by code_simp
  have rl: "replace_cell_references P g ''A1+1'' = replace_loop P g [''A1''] ''A1+1''"
    unfolding replace_cell_references_def f ..
  have "replace_cell_references P g ''A1+1'' = (g, Inl AttributeError)"
    by (simp add: rl get_cell_from_id_unassigned [OF assms d])
  then show ?thesis
    by (simp add: evaluate_formula_def startswith_def)
qed

text \<open>
  The evaluation of \<^verbatim>\<open>=A1+1\<close> shown for claim C3 does not depend on the sheet or on the
  runtime used there: whenever the attribute is assigned, A1 is absent and
  \<^verbatim>\<open>float("")\<close> raises, the result is the error text and A1 is left with the empty text.
\<close>

lemma absent_reference_is_error:
  assumes "assigned g" and "qt_table g"
    and "float_str P [] = None" and "in_grid g 0 0" and "cells g (0, 0) = None"
  shows "evaluate_formula P g ''=A1+1'' =
    (g\<lparr>cells := (cells g)((0, 0) \<mapsto> [])\<rparr>, Inr (Str ''ERROR: Invalid cell reference''))"
proof -
  have d: "decode_cell_id ''A1'' = Some (0, 0)" by code_simp
  have f: "findall_refs ''A1+1'' = [''A1'']" by code_simp
  have rl: "replace_cell_references P g ''A1+1'' = replace_loop P g [''A1''] ''A1+1''"
    unfolding replace_cell_references_def f ..
  have "get_cell_from_id g ''A1'' =
      (g\<lparr>cells := (cells g)((0, 0) \<mapsto> [])\<rparr>, Inr (Some \<lparr>irow = 0, icol = 0, itext = []\<rparr>))"
    using get_cell_from_id_inside [OF assms(1,2) d assms(4)] assms(5) by simp
  then have "replace_cell_references P g ''A1+1'' =
      (g\<lparr>cells := (cells g)((0, 0) \<mapsto> [])\<rparr>, Inr ''ERROR: Invalid cell reference'')"
    by (simp add: rl assms(3))
  then show ?thesis
    by (simp add: evaluate_formula_def startswith_def)
qed

section \<open>Range resolution\<close>

lemma collect_cells_coords:
  "collect_cells g coords = (g', Inr cs) \<Longrightarrow> map fst cs = coords"
proof (induction coords arbitrary: g g' cs)
  case Nil
  then show ?case by simp
next
  case (Cons rc rest)
  obtain r c where rc: "rc = (r, c)" by (cases rc)
  from Cons.prems show ?case
    unfolding rc
    by (auto split: sum.splits option.splits prod.splits dest: Cons.IH)
qed

lemma range_coords_nonempty: "range_coords r1 c1 r2 c2 \<noteq> []"
proof -
  have "[min r1 r2..max r1 r2] \<noteq> []" and "[min c1 c2..max c1 c2] \<noteq> []"
    by simp_all
  then obtain r rs c cs where "[min r1 r2..max r1 r2] = r # rs" "[min c1 c2..max c1 c2] = c # cs"
    by (meson list.exhaust)
  then show ?thesis by (simp add: range_coords_def)
qed

lemma get_cells_in_range_collects:
  assumes "get_cells_in_range g range_str = (g', Inr cs)"
  shows "\<exists>g2 r1 c1 r2 c2. collect_cells g2 (range_coords r1 c1 r2 c2) = (g', Inr cs)"
  using assms unfolding get_cells_in_range_def
  by (fastforce split: list.splits prod.splits sum.splits option.splits)

lemma cell_values_length: "cell_values P cs = Inr vals \<Longrightarrow> length vals = length cs"
proof (induction cs arbitrary: vals)
  case Nil
  then show ?case by simp
next
  case (Cons a cs)
  obtain rc t where a: "a = (rc, t)" by (cases a)
  from Cons.prems show ?case
    unfolding a by (auto split: option.splits sum.splits if_splits dest: Cons.IH)
qed

text \<open>
  Claim C10. Whenever \<^verbatim>\<open>get_cells_in_range\<close> returns a list of cells, the list is not
  empty; so the list of values computed from it is not empty either, the divisor
  \<^verbatim>\<open>len(values)\<close> of AVERAGE is not zero, and no aggregate raises
  \<^verbatim>\<open>ZeroDivisionError\<close>. The test \<^verbatim>\<open>if not values\<close> of \<^verbatim>\<open>handle_special_function\<close>
  is therefore never taken.
\<close>

theorem range_cells_nonempty:
  assumes "get_cells_in_range g range_str = (g', Inr cs)"
  shows "cs \<noteq> [] \<and>
    (\<forall>vals. cell_values P cs = Inr vals \<longrightarrow>
       vals \<noteq> [] \<and> int (length vals) \<noteq> 0 \<and>
       aggregate P func_name vals \<noteq> Inl ZeroDivisionError)"
proof -
  from get_cells_in_range_collects [OF assms] obtain g2 r1 c1 r2 c2
    where "collect_cells g2 (range_coords r1 c1 r2 c2) = (g', Inr cs)" by blast
  then have "map fst cs = range_coords r1 c1 r2 c2" by (rule collect_cells_coords)
  then have ne: "cs \<noteq> []" using range_coords_nonempty [of r1 c1 r2 c2] by auto
  have "vals \<noteq> [] \<and> int (length vals) \<noteq> 0 \<and> aggregate P func_name vals \<noteq> Inl ZeroDivisionError"
    if "cell_values P cs = Inr vals" for vals
  proof -
    from that have "length vals = length cs" by (rule cell_values_length)
    with ne have "vals \<noteq> []" by auto
    then show ?thesis by (simp add: aggregate_def)
  qed
  with ne show ?thesis by blast
qed

lemma collect_cells_effect:
  assumes "assigned g" and "qt_table g"
    and "\<forall>rc\<in>set coords. in_grid g (fst rc) (snd rc)"
  shows "\<exists>g' cs. collect_cells g coords = (g', Inr cs) \<and> map fst cs = coords \<and>
      rowCount g' = rowCount g \<and> columnCount g' = columnCount g \<and>
      (\<forall>rc. cells g' rc = (if rc \<in> set coords \<and> cells g rc = None then Some ''0'' else cells g rc)) \<and>
      (\<forall>rc t. (rc, t) \<in> set cs \<longrightarrow> cells g' rc = Some t)"
  using assms
proof (induction coords arbitrary: g)
  case Nil
  then show ?case by simp
next
  case (Cons rc rest)
  obtain r c where rc: "rc = (r, c)" by (cases rc)
  from Cons.prems have a: "assigned g" and q: "qt_table g" and ok: "in_grid g r c"
    and rest: "\<forall>x\<in>set rest. in_grid g (fst x) (snd x)"
    by (auto simp: rc)
  show ?case
  proof (cases "cells g (r, c)")
    case (Some t)
    from Cons.IH [OF a q rest] obtain g' cs where
      h: "collect_cells g rest = (g', Inr cs)" "map fst cs = rest"
        "rowCount g' = rowCount g" "columnCount g' = columnCount g"
        "\<forall>x. cells g' x = (if x \<in> set rest \<and> cells g x = None then Some ''0'' else cells g x)"
        "\<forall>x t. (x, t) \<in> set cs \<longrightarrow> cells g' x = Some t"
      by blast
    have "collect_cells g (rc # rest) = (g', Inr (((r, c), t) # cs))"
      using a q ok Some h(1) by (simp add: rc item_inside)
    moreover have "\<forall>x. cells g' x = (if x \<in> set (rc # rest) \<and> cells g x = None then Some ''0'' else cells g x)"
      using h(5) Some by (auto simp: rc)
    moreover have "\<forall>x u. (x, u) \<in> set (((r, c), t) # cs) \<longrightarrow> cells g' x = Some u"
      using h(5,6) Some by auto
    ultimately show ?thesis using h(2,3,4) by (auto simp: rc)
  next
    case None
    let ?g1 = "g\<lparr>cells := (cells g)((r, c) \<mapsto> ''0'')\<rparr>"
    have a1: "assigned ?g1" and q1: "qt_table ?g1" using a q by simp_all
    have rest1: "\<forall>x\<in>set rest. in_grid ?g1 (fst x) (snd x)"
      using rest by simp
    from Cons.IH [OF a1 q1 rest1] obtain g' cs where
      h: "collect_cells ?g1 rest = (g', Inr cs)" "map fst cs = rest"
        "rowCount g' = rowCount ?g1" "columnCount g' = columnCount ?g1"
        "\<forall>x. cells g' x = (if x \<in> set rest \<and> cells ?g1 x = None then Some ''0'' else cells ?g1 x)"
        "\<forall>x t. (x, t) \<in> set cs \<longrightarrow> cells g' x = Some t"
      by blast
    have "collect_cells g (rc # rest) = (g', Inr (((r, c), ''0'') # cs))"
      using a q ok None h(1) by (simp add: rc item_inside setItem_inside)
    moreover have "\<forall>x. cells g' x = (if x \<in> set (rc # rest) \<and> cells g x = None then Some ''0'' else cells g x)"
      using h(5) None by (auto simp: rc)
    moreover have "\<forall>x u. (x, u) \<in> set (((r, c), ''0'') # cs) \<longrightarrow> cells g' x = Some u"
      using h(5,6) by auto
    ultimately show ?thesis using h(2,3,4) by (auto simp: rc)
  qed
qed

theorem range_cells_nonempty_witness:
  "snd (get_cells_in_range sheet_0_5_0 ''A1:A3'') =
     Inr [((0, 0), ''0''), ((1, 0), ''5''), ((2, 0), ''0'')] \<and>
   cell_values sample_python [((0, 0), ''0''), ((1, 0), ''5''), ((2, 0), ''0'')] =
     Inr [Whole 0, Whole 5, Whole 0] \<and>
   aggregate sample_python ''AVERAGE'' [Whole 0, Whole 5, Whole 0] \<noteq> Inl ZeroDivisionError"
proof -
  let ?cs = "[((0, 0), ''0''), ((1, 0), ''5''), ((2, 0), ''0'')] :: ((int \<times> int) \<times> string) list"
  have r: "snd (get_cells_in_range sheet_0_5_0 ''A1:A3'') = Inr ?cs"
    by code_simp
  then have "get_cells_in_range sheet_0_5_0 ''A1:A3'' =
      (fst (get_cells_in_range sheet_0_5_0 ''A1:A3''), Inr ?cs)"
    by (simp add: prod_eq_iff)
  from range_cells_nonempty [OF this, of sample_python "''AVERAGE''"]
  have "\<forall>vals. cell_values sample_python ?cs = Inr vals \<longrightarrow>
      aggregate sample_python ''AVERAGE'' vals \<noteq> Inl ZeroDivisionError"
    by blast
  moreover have v: "cell_values sample_python ?cs = Inr [Whole 0, Whole 5, Whole 0]"
    by code_simp
  ultimately show ?thesis using r by blast
qed


section \<open>Iterating a range\<close>

text \<open>
  Claim C6 says that evaluating an aggregate leaves every cell of the range that was absent
  with the text \<^verbatim>\<open>0\<close>. On the empty sheet (with the attribute assigned), after
  \<^verbatim>\<open>=SUM(A1:A3)\<close> the corner cell A1 holds the empty text, while A2, in between, holds
  \<^verbatim>\<open>0\<close>: the two corners are looked up with \<^verbatim>\<open>get_cell_from_id\<close> first, which
  creates a missing item with \<^verbatim>\<open>""\<close>, so the loop's own \<^verbatim>\<open>QTableWidgetItem("0")\<close> is
  never reached for them.
\<close>

theorem range_corner_left_empty:
  "cells empty_sheet (0, 0) = None \<and>
   cells (fst (evaluate_formula sample_python empty_sheet ''=SUM(A1:A3)'')) (0, 0) = Some [] \<and>
   cells (fst (evaluate_formula sample_python empty_sheet ''=SUM(A1:A3)'')) (1, 0) = Some ''0''"
  by code_simp

text \<open>
  In the program as it stands the attribute is not assigned: the first lookup raises
  \<^verbatim>\<open>AttributeError\<close>, which \<^verbatim>\<open>handle_special_function\<close> catches. The aggregate is the
  error text and no cell is materialized.
\<close>

lemma unassigned_range_untouched:
  assumes "\<not> assigned g"
  shows "evaluate_formula P g ''=SUM(A1:A3)'' = (g, Inr (Str ''ERROR: Invalid SUM range''))"
proof -
  have d: "decode_cell_id ''A1'' = Some (0, 0)" by code_simp
  have m: "match_function ''SUM(A1:A3)'' = Some (''SUM'', ''A1:A3'')" by code_simp
  have s: "split_str CHR '':'' ''A1:A3'' = [''A1'', ''A3'']" by simp
  have "get_cells_in_range g ''A1:A3'' = (g, Inl AttributeError)"
    unfolding get_cells_in_range_def s by (simp add: get_cell_from_id_unassigned [OF assms d])
  then have "handle_special_function P g ''SUM(A1:A3)'' = (g, Inr (Str ''ERROR: Invalid SUM range''))"
    unfolding handle_special_function_def m by (simp add: special_body_def)
  then show ?thesis
    by (simp add: evaluate_formula_def startswith_def)
qed

lemma range_coords_comprehension:
  "range_coords r1 c1 r2 c2 =
     [(r, c). r \<leftarrow> [min r1 r2..max r1 r2], c \<leftarrow> [min c1 c2..max c1 c2]]"
  by (simp add: range_coords_def)

text \<open>
  What the iteration does when the attribute is assigned and both addresses of the range
  lie inside the table: \<^verbatim>\<open>get_cells_in_range\<close> returns the cells of the normalized
  rectangle row by row, each row by ascending column; afterwards no cell of the rectangle
  is absent: a cell that had an item keeps it, an absent corner (the start or the end
  address) holds the empty text, every other absent cell holds \<^verbatim>\<open>0\<close>; cells outside the
  rectangle are unchanged, and each returned item is the item of its cell.
\<close>

lemma range_iteration:
  assumes "assigned g" and "qt_table g" and "split_str CHR '':'' range_str = [a, b]"
    and "decode_cell_id a = Some (r1, c1)" and "decode_cell_id b = Some (r2, c2)"
    and "in_grid g r1 c1" and "in_grid g r2 c2"
  shows "\<exists>g' cs. get_cells_in_range g range_str = (g', Inr cs) \<and>
     map fst cs = [(r, c). r \<leftarrow> [min r1 r2..max r1 r2], c \<leftarrow> [min c1 c2..max c1 c2]] \<and>
     (\<forall>r c. cells g' (r, c) =
        (if cells g (r, c) = None \<and> min r1 r2 \<le> r \<and> r \<le> max r1 r2 \<and>
            min c1 c2 \<le> c \<and> c \<le> max c1 c2
         then (if (r, c) = (r1, c1) \<or> (r, c) = (r2, c2) then Some [] else Some ''0'')
         else cells g (r, c))) \<and>
     (\<forall>rc t. (rc, t) \<in> set cs \<longrightarrow> cells g' rc = Some t)"
proof -
  let ?g1 = "if cells g (r1, c1) = None then g\<lparr>cells := (cells g)((r1, c1) \<mapsto> [])\<rparr> else g"
  let ?g2 = "if cells ?g1 (r2, c2) = None then ?g1\<lparr>cells := (cells ?g1)((r2, c2) \<mapsto> [])\<rparr> else ?g1"
  let ?coords = "range_coords r1 c1 r2 c2"
  note asg = assms(1) and qt = assms(2) and sp = assms(3) and d1 = assms(4) and d2 = assms(5)
    and i1 = assms(6) and i2 = assms(7)
  have s1: "get_cell_from_id g a = (?g1, Inr (Some \<lparr>irow = r1, icol = c1,
      itext = (case cells g (r1, c1) of Some t \<Rightarrow> t | None \<Rightarrow> [])\<rparr>))"
    using get_cell_from_id_inside [OF asg qt d1 i1] .
  have a1: "assigned ?g1" and q1: "qt_table ?g1" using asg qt by simp_all
  have in2: "in_grid ?g1 r2 c2" using i2 by simp
  have s2: "get_cell_from_id ?g1 b = (?g2, Inr (Some \<lparr>irow = r2, icol = c2,
      itext = (case cells ?g1 (r2, c2) of Some t \<Rightarrow> t | None \<Rightarrow> [])\<rparr>))"
    using get_cell_from_id_inside [OF a1 q1 d2 in2] .
  have a2: "assigned ?g2" and q2: "qt_table ?g2" using asg qt by simp_all
  have inside: "in_grid g r c"
    if "(r, c) \<in> set ?coords" for r c
    using that i1 i2 by (auto simp: range_coords_def in_grid_def)
  have "\<forall>rc\<in>set ?coords. in_grid ?g2 (fst rc) (snd rc)"
  proof
    fix rc assume "rc \<in> set ?coords"
    then have "in_grid g (fst rc) (snd rc)" using inside [of "fst rc" "snd rc"] by simp
    moreover have "in_grid ?g2 (fst rc) (snd rc) = in_grid g (fst rc) (snd rc)"
      by (simp add: in_grid_def)
    ultimately show "in_grid ?g2 (fst rc) (snd rc)"
      by blast
  qed
  from collect_cells_effect [OF a2 q2 this] obtain g' cs where
    h: "collect_cells ?g2 ?coords = (g', Inr cs)" "map fst cs = ?coords"
      "\<forall>rc. cells g' rc = (if rc \<in> set ?coords \<and> cells ?g2 rc = None then Some ''0'' else cells ?g2 rc)"
      "\<forall>rc t. (rc, t) \<in> set cs \<longrightarrow> cells g' rc = Some t"
    by blast
  have run: "get_cells_in_range g range_str = (g', Inr cs)"
    unfolding get_cells_in_range_def sp using s1 s2 h(1) by simp
  have mem: "(r, c) \<in> set ?coords \<longleftrightarrow>
      min r1 r2 \<le> r \<and> r \<le> max r1 r2 \<and> min c1 c2 \<le> c \<and> c \<le> max c1 c2" for r c
    by (force simp: range_coords_def)
  have c1: "(r1, c1) \<in> set ?coords" and c2: "(r2, c2) \<in> set ?coords"
    by (simp_all add: mem)
  have cells': "cells g' (r, c) =
        (if cells g (r, c) = None \<and> min r1 r2 \<le> r \<and> r \<le> max r1 r2 \<and>
            min c1 c2 \<le> c \<and> c \<le> max c1 c2
         then (if (r, c) = (r1, c1) \<or> (r, c) = (r2, c2) then Some [] else Some ''0'')
         else cells g (r, c))" for r c
    using h(3) [rule_format, of "(r, c)"] mem [of r c] c1 c2
    by (auto simp: mem split: if_splits)
  show ?thesis
    using run h(2) h(4) cells' by (simp add: range_coords_comprehension)
qed

section \<open>COUNT\<close>

lemma split_str_nonempty: "split_str sep s \<noteq> []"
  by (induction s) (auto split: list.splits)

lemma split_str_chars:
  "x \<in> set s \<Longrightarrow> x \<noteq> sep \<Longrightarrow> \<exists>p\<in>set (split_str sep s). x \<in> set p"
proof (induction s)
  case Nil
  then show ?case by simp
next
  case (Cons c cs)
  obtain p ps where sp: "split_str sep cs = p # ps"
    using split_str_nonempty [of sep cs] by (cases "split_str sep cs") auto
  show ?case
  proof (cases "c = sep")
    case True
    with Cons show ?thesis by auto
  next
    case False
    with Cons sp show ?thesis by (cases "x = c") auto
  qed
qed

lemma is_address_chars: "is_address a \<Longrightarrow> x \<in> set a \<Longrightarrow> is_upper x \<or> is_digit x"
  by (auto simp: is_address_def list_all_iff split: list.splits)

lemma well_formed_range_one_line:
  assumes "well_formed_range range_str"
  shows "CHR 0x0A \<notin> set range_str"
proof
  assume nl: "CHR 0x0A \<in> set range_str"
  from assms obtain a b where sp: "split_str CHR '':'' range_str = [a, b]"
    and ab: "is_address a" "is_address b"
    by (auto simp: well_formed_range_def split: list.splits)
  from split_str_chars [OF nl, of "CHR '':''"] sp
  have "CHR 0x0A \<in> set a \<or> CHR 0x0A \<in> set b" by auto
  with ab have "is_upper CHR 0x0A \<or> is_digit CHR 0x0A"
    using is_address_chars by blast
  then show False by (simp add: is_upper_def is_digit_def)
qed

lemma match_function_count:
  assumes "CHR 0x0A \<notin> set range_str"
  shows "match_function (''COUNT('' @ range_str @ '')'') = Some (''COUNT'', range_str)"
proof -
  have "takeWhile (\<lambda>x. x \<noteq> CHR 0x0A) (range_str @ '')'') = range_str @ '')''"
    using assms by (subst takeWhile_append2) auto
  then show ?thesis
    by (simp add: match_function_def is_upper_def)
qed

lemma str_int_zero: "str_int 0 = ''0''"
  by code_simp

text \<open>
  Claim C5 says that \<^verbatim>\<open>=COUNT(range)\<close> evaluates to the number of collected values that
  are not zero, \<^verbatim>\<open>1\<close> over the values 0, 5, 0. In the program as it stands it evaluates
  to an error text, whatever the cells hold and whatever the runtime: the attribute
  \<^verbatim>\<open>self.spreadsheet\<close> is not assigned, the first lookup of \<^verbatim>\<open>get_cell_from_id\<close> raises
  \<^verbatim>\<open>AttributeError\<close>, and \<^verbatim>\<open>handle_special_function\<close> turns it into the text.
\<close>

theorem count_as_shipped:
  "evaluate_formula P (g\<lparr>assigned := False\<rparr>) ''=COUNT(A1:A3)'' =
     (g\<lparr>assigned := False\<rparr>, Inr (Str ''ERROR: Invalid COUNT range''))"
proof -
  let ?g = "g\<lparr>assigned := False\<rparr>"
  have u: "\<not> assigned ?g" by simp
  have d: "decode_cell_id ''A1'' = Some (0, 0)" by code_simp
  have m: "match_function ''COUNT(A1:A3)'' = Some (''COUNT'', ''A1:A3'')" by code_simp
  have s: "split_str CHR '':'' ''A1:A3'' = [''A1'', ''A3'']" by simp
  have "get_cells_in_range ?g ''A1:A3'' = (?g, Inl AttributeError)"
    unfolding get_cells_in_range_def s by (simp add: get_cell_from_id_unassigned [OF u d])
  then have "handle_special_function P ?g ''COUNT(A1:A3)'' =
      (?g, Inr (Str ''ERROR: Invalid COUNT range''))"
    unfolding handle_special_function_def m by (simp add: special_body_def)
  then show ?thesis
    by (simp add: evaluate_formula_def startswith_def)
qed

text \<open>
  The counting itself is as the claim says. Once the attribute is assigned, for a
  well-formed range that \<^verbatim>\<open>get_cells_in_range\<close> resolves and whose cells all coerce to
  floats, \<^verbatim>\<open>=COUNT(range)\<close> evaluates to the decimal text of the number of collected values
  \<open>v\<close> with \<^verbatim>\<open>v != 0\<close>; over the values 0, 5, 0 that is \<^verbatim>\<open>1\<close>.
\<close>

lemma count_counts_nonzero:
  assumes "well_formed_range range_str"
    and "get_cells_in_range g range_str = (g', Inr cs)"
    and "cell_values P cs = Inr vals"
  shows "evaluate_formula P g (''=COUNT('' @ range_str @ '')'') =
    (g', Inr (Str (str_int (int (length (filter (ne_zero P) vals))))))"
proof -
  have m: "match_function (''COUNT('' @ range_str @ '')'') = Some (''COUNT'', range_str)"
    using match_function_count [OF well_formed_range_one_line [OF assms(1)]] .
  have a: "aggregate P ''COUNT'' vals = Inr (Str (str_int (int (length (filter (ne_zero P) vals)))))"
    by (cases vals) (simp_all add: aggregate_def str_int_zero)
  have sb: "special_body P g ''COUNT'' range_str =
      (g', Inr (Str (str_int (int (length (filter (ne_zero P) vals))))))"
    by (simp add: special_body_def assms(2,3) a)
  have "handle_special_function P g (''COUNT('' @ range_str @ '')'') =
      (g', Inr (Str (str_int (int (length (filter (ne_zero P) vals))))))"
    unfolding handle_special_function_def m by (simp add: sb)
  then show ?thesis
    by (simp add: evaluate_formula_def startswith_def)
qed

lemma count_zero_five_zero:
  "snd (evaluate_formula sample_python sheet_0_5_0 ''=COUNT(A1:A3)'') = Inr (Str ''1'')"
  by code_simp

section \<open>The Number Only rule\<close>

text \<open>
  Claim C8 says that a cell with the rule \<^verbatim>\<open>Number Only\<close> accepts a text exactly when it
  parses as a finite number. The text \<^verbatim>\<open>inf\<close> is accepted: \<^verbatim>\<open>float("inf")\<close> succeeds,
  and its value is not finite.
\<close>

theorem number_only_accepts_inf:
  "validate_cell_input sample_python (Some a1_number_only)
     (Some \<lparr>irow = 0, icol = 0, itext = ''inf''\<rparr>) = Some (Inr True) \<and>
   float_str sample_python ''inf'' = Some PosInf \<and>
   \<not> is_finite sample_python PosInf"
  by code_simp

text \<open>
  Claim C8, amended. A cell with the rule \<^verbatim>\<open>Number Only\<close> accepts a text exactly when
  \<^verbatim>\<open>float(text)\<close> succeeds; no test for finiteness is made, so the spellings of the
  infinities and of NaN that \<^verbatim>\<open>float\<close> reads are accepted, and a text that \<^verbatim>\<open>float\<close>
  rejects is rejected.
\<close>

theorem number_only_accepts_floats:
  assumes "get_cell_id (irow i) (icol i) = Some (Inr a)"
    and "rules a = Some v" and "vtype v = ''Number Only''"
  shows "validate_cell_input P (Some rules) (Some i) = Some (Inr (float_str P (itext i) \<noteq> None))"
  using assms by (auto simp: validate_cell_input_def check_rule_def split: option.splits)

theorem number_only_accepts_floats_witness:
  "validate_cell_input sample_python (Some a1_number_only)
     (Some \<lparr>irow = 0, icol = 0, itext = ''5''\<rparr>) = Some (Inr True) \<and>
   validate_cell_input sample_python (Some a1_number_only)
     (Some \<lparr>irow = 0, icol = 0, itext = ''abc''\<rparr>) = Some (Inr False)"
proof -
  have a: "get_cell_id 0 0 = Some (Inr ''A1'')" by code_simp
  have r: "a1_number_only ''A1'' = Some \<lparr>vtype = ''Number Only'', vmin = None, vmax = None\<rparr>"
    by (simp add: a1_number_only_def)
  have f1: "float_str sample_python ''5'' \<noteq> None" and f2: "float_str sample_python ''abc'' = None"
    by code_simp+
  have "validate_cell_input sample_python (Some a1_number_only)
      (Some \<lparr>irow = 0, icol = 0, itext = ''5''\<rparr>) =
      Some (Inr (float_str sample_python ''5'' \<noteq> None))"
    using number_only_accepts_floats
      [of "\<lparr>irow = 0, icol = 0, itext = ''5''\<rparr>" "''A1''" a1_number_only
        "\<lparr>vtype = ''Number Only'', vmin = None, vmax = None\<rparr>" sample_python]
      a r by simp
  moreover have "validate_cell_input sample_python (Some a1_number_only)
      (Some \<lparr>irow = 0, icol = 0, itext = ''abc''\<rparr>) =
      Some (Inr (float_str sample_python ''abc'' \<noteq> None))"
    using number_only_accepts_floats
      [of "\<lparr>irow = 0, icol = 0, itext = ''abc''\<rparr>" "''A1''" a1_number_only
        "\<lparr>vtype = ''Number Only'', vmin = None, vmax = None\<rparr>" sample_python]
      a r by simp
  ultimately show ?thesis using f1 f2 by simp
qed


section \<open>Sorting a table region\<close>














text \<open>
  The order of texts used by the sort is the lexical one: the first position where two
  texts differ decides, by code point, and a proper prefix comes first. It is not the
  order of the numbers the texts may spell.
\<close>

lemma text_order_is_lexical:
  "(s < (u :: string)) = ((s, u) \<in> lexord {(a, b). (of_char a :: nat) < of_char b})"
  by (simp add: list_less_def less_char_def)





end
